theory Spec2Isabelle
  imports Complex_Main "HOL-Library.Sublist"
begin

section \<open>Data model (types of the application)\<close>

text \<open>
  The TypeScript \<open>number\<close> fields are modelled exactly: stock and cart quantities, which
  every entry point of the application produces with \<open>parseInt\<close> or by adding and
  subtracting whole numbers, are \<open>int\<close>; prices and money amounts (\<open>parseFloat\<close>) are
  \<open>rat\<close>. Rounding of IEEE doubles and \<open>NaN\<close> are outside the model. Record fields keep
  the names of the interfaces; a name shared by two interfaces, or taken by a HOL constant
  (\<open>id\<close>, \<open>total\<close>), gets the interface as prefix. Descriptive fields that no modelled
  operation reads (bar code, category, image, supplier, the \<open>product\<close> snapshot inside a
  cart line) are left out.
\<close>

record product =
  product_id :: string
  name :: string
  sku :: string
  purchasePrice :: rat
  salePrice :: rat
  quantity :: int
  minQuantity :: int

record saleItem =
  item_id :: string
  productId :: string
  item_quantity :: int
  unitPrice :: rat
  item_total :: rat

datatype paymentMethod = Cash | Card | Transfer | Mixed

datatype saleStatus = Completed | Pending | Cancelled

text \<open>What the code reads of \<open>new Date()\<close>: \<open>getFullYear()\<close> and \<open>getMonth()\<close> (0 to 11).\<close>

record date =
  fullYear :: nat
  monthIndex :: nat

text \<open>\<open>Omit<Sale, 'id' | 'invoiceNumber' | 'createdAt'>\<close>, the argument of \<open>addSale\<close>.\<close>

record saleDraft =
  customerId :: "string option"
  items :: "saleItem list"
  subtotal :: rat
  vatAmount :: rat
  sale_total :: rat
  sale_paymentMethod :: paymentMethod
  paidAmount :: rat
  change :: rat
  sellerId :: string
  sale_status :: saleStatus

record sale = saleDraft +
  sale_id :: string
  invoiceNumber :: string
  createdAt :: date

datatype movementType = In | Out | Adjustment

record stockMovement =
  movement_id :: string
  movement_productId :: string
  movement_type :: movementType
  movement_quantity :: int
  reason :: string
  userId :: string

datatype debtStatus = DebtPending | DebtPartial | DebtPaid

record paymentInput =
  payment_amount :: rat
  payment_method :: string
  payment_note :: "string option"

record debtPayment = paymentInput +
  payment_id :: string
  debtId :: string
  paymentDate :: date

record debt =
  debt_id :: string
  debt_customerId :: string
  amount :: rat
  paid :: rat
  remaining :: rat
  debt_status :: debtStatus
  payments :: "debtPayment list"

text \<open>
  The zustand stores, side by side: each action of the source reads and replaces some of
  these fields. \<open>vatRate\<close> is \<open>settings.company.vatRate\<close>.
\<close>

record store =
  products :: "product list"
  sales :: "sale list"
  cart :: "saleItem list"
  movements :: "stockMovement list"
  debts :: "debt list"
  vatRate :: rat

text \<open>
  What a page handler tells the user: it went through (\<open>Done\<close>), it returned silently
  before doing anything (\<open>Ignored\<close>), or it showed an error toast and returned.
\<close>

datatype error = InsufficientStock | EmptyCart | InsufficientPayment | MissingFields | InvalidAmount

datatype outcome = Done | Ignored | Failed error

section \<open>Sales store: the cart (store/index.ts)\<close>

definition addToCart :: "saleItem \<Rightarrow> store \<Rightarrow> store" where
  "addToCart item s =
     (case find (\<lambda>i. productId i = productId item) (cart s) of
        Some existingItem \<Rightarrow>
          s\<lparr>cart := map (\<lambda>i. if productId i = productId item
                               then i\<lparr>item_quantity := item_quantity i + item_quantity item,
                                      item_total := of_int (item_quantity i + item_quantity item) * unitPrice i\<rparr>
                               else i) (cart s)\<rparr>
      | None \<Rightarrow> s\<lparr>cart := cart s @ [item]\<rparr>)"

definition removeFromCart :: "string \<Rightarrow> store \<Rightarrow> store" where
  "removeFromCart pid s = s\<lparr>cart := filter (\<lambda>i. productId i \<noteq> pid) (cart s)\<rparr>"

definition updateCartItem :: "string \<Rightarrow> int \<Rightarrow> store \<Rightarrow> store" where
  "updateCartItem pid q s =
     s\<lparr>cart := map (\<lambda>i. if productId i = pid
                          then i\<lparr>item_quantity := q, item_total := of_int q * unitPrice i\<rparr>
                          else i) (cart s)\<rparr>"

definition clearCart :: "store \<Rightarrow> store" where
  "clearCart s = s\<lparr>cart := []\<rparr>"

definition getCartTotal :: "store \<Rightarrow> rat" where
  "getCartTotal s = foldl (\<lambda>total item. total + item_total item) 0 (cart s)"

text \<open>A sequence of cart actions, run from left to right.\<close>

datatype cartOp = AddToCart saleItem | UpdateCartItem string int | RemoveFromCart string

fun applyCartOp :: "cartOp \<Rightarrow> store \<Rightarrow> store" where
  "applyCartOp (AddToCart item) s = addToCart item s"
| "applyCartOp (UpdateCartItem pid q) s = updateCartItem pid q s"
| "applyCartOp (RemoveFromCart pid) s = removeFromCart pid s"

fun runCartOps :: "cartOp list \<Rightarrow> store \<Rightarrow> store" where
  "runCartOps [] s = s"
| "runCartOps (op # ops) s = runCartOps ops (applyCartOp op s)"

text \<open>The line invariant of the cart, and the condition on the items handed to \<open>addToCart\<close>.\<close>

definition lineConsistent :: "saleItem \<Rightarrow> bool" where
  "lineConsistent i \<longleftrightarrow> item_total i = of_int (item_quantity i) * unitPrice i"

fun addedItemsConsistent :: "cartOp list \<Rightarrow> bool" where
  "addedItemsConsistent [] = True"
| "addedItemsConsistent (AddToCart item # ops) = (lineConsistent item \<and> addedItemsConsistent ops)"
| "addedItemsConsistent (_ # ops) = addedItemsConsistent ops"

section \<open>Products store (store/index.ts)\<close>

text \<open>
  \<open>updateProduct(id, product)\<close> merges a partial product into every product with that
  id. Both callers modelled here (the sale and the stock adjustment) pass the partial
  product \<open>{ quantity: q }\<close>, so the partial product is its quantity. The \<open>updatedAt\<close>
  stamp is not modelled.
\<close>

definition updateProduct :: "string \<Rightarrow> int \<Rightarrow> store \<Rightarrow> store" where
  "updateProduct pid q s =
     s\<lparr>products := map (\<lambda>p. if product_id p = pid then p\<lparr>quantity := q\<rparr> else p) (products s)\<rparr>"

definition deleteProduct :: "string \<Rightarrow> store \<Rightarrow> store" where
  "deleteProduct pid s = s\<lparr>products := filter (\<lambda>p. product_id p \<noteq> pid) (products s)\<rparr>"

definition getLowStockProducts :: "store \<Rightarrow> product list" where
  "getLowStockProducts s = filter (\<lambda>p. quantity p \<le> minQuantity p) (products s)"

subsection \<open>The stock page's own queries (pages/Stock.tsx)\<close>

definition lowStockProducts :: "store \<Rightarrow> product list" where
  "lowStockProducts s = filter (\<lambda>p. quantity p \<le> minQuantity p \<and> quantity p > 0) (products s)"

definition outOfStockProducts :: "store \<Rightarrow> product list" where
  "outOfStockProducts s = filter (\<lambda>p. quantity p = 0) (products s)"

section \<open>Invoice numbers (store/index.ts)\<close>

text \<open>\<open>String(n)\<close> for a natural number, and \<open>padStart\<close>.\<close>

definition digitChar :: "nat \<Rightarrow> char" where
  "digitChar d = ''0123456789'' ! d"

fun stringOfNat :: "nat \<Rightarrow> string" where
  "stringOfNat n = (if n < 10 then [digitChar n] else stringOfNat (n div 10) @ [digitChar (n mod 10)])"

declare stringOfNat.simps [simp del]

definition padStart :: "nat \<Rightarrow> char \<Rightarrow> string \<Rightarrow> string" where
  "padStart w c str = replicate (w - length str) c @ str"

definition generateInvoiceNumber :: "date \<Rightarrow> store \<Rightarrow> string" where
  "generateInvoiceNumber now s =
     (let prefix = ''INV'';
          year = fullYear now;
          month = padStart 2 (CHR ''0'') (stringOfNat (monthIndex now + 1));
          count = length (sales s) + 1
      in prefix @ ''-'' @ stringOfNat year @ month @ ''-'' @ padStart 4 (CHR ''0'') (stringOfNat count))"

text \<open>
  Reading an invoice number back: the sequence component is the text after the last
  \<open>-\<close>, read as a decimal number.
\<close>

definition digitVal :: "char \<Rightarrow> nat" where
  "digitVal c = of_char c - 48"

definition natOfString :: "string \<Rightarrow> nat" where
  "natOfString str = foldl (\<lambda>acc c. 10 * acc + digitVal c) 0 str"

definition sequencePart :: "string \<Rightarrow> string" where
  "sequencePart number = rev (takeWhile (\<lambda>c. c \<noteq> CHR ''-'') (rev number))"

definition invoiceSequence :: "string \<Rightarrow> nat" where
  "invoiceSequence number = natOfString (sequencePart number)"

section \<open>Sales store: recording and cancelling a sale (store/index.ts)\<close>

text \<open>
  \<open>addSale\<close> takes the random id and the current date as arguments. It reads the
  product list once (\<open>products\<close> is the value of \<open>getState()\<close> before the loop) and each
  \<open>updateProduct\<close> of the loop writes \<open>product.quantity - item.quantity\<close> computed from
  that first reading. It returns the new sale next to the new state.
\<close>

definition decrementStock :: "product list \<Rightarrow> saleItem \<Rightarrow> store \<Rightarrow> store" where
  "decrementStock snapshot item s =
     (case find (\<lambda>p. product_id p = productId item) snapshot of
        Some product \<Rightarrow> updateProduct (productId item) (quantity product - item_quantity item) s
      | None \<Rightarrow> s)"

definition addSale :: "saleDraft \<Rightarrow> string \<Rightarrow> date \<Rightarrow> store \<Rightarrow> sale \<times> store" where
  "addSale draft rid now s =
     (let invoiceNumber = generateInvoiceNumber now s;
          newSale = saleDraft.extend draft
                      (sale.fields rid invoiceNumber now);
          s1 = s\<lparr>sales := newSale # sales s\<rparr>;
          snapshot = products s1
      in (newSale, foldl (\<lambda>st item. decrementStock snapshot item st) s1 (items draft)))"

definition cancelSale :: "string \<Rightarrow> store \<Rightarrow> store" where
  "cancelSale sid s =
     s\<lparr>sales := map (\<lambda>x. if sale_id x = sid then x\<lparr>sale_status := Cancelled\<rparr> else x) (sales s)\<rparr>"

section \<open>Point of sale page (pages/POS.tsx)\<close>

text \<open>
  The handlers of the page, each from the store before to the outcome shown and the store
  after. \<open>newCartItem\<close> is the object that \<open>addProductToCart\<close> hands to \<open>addToCart\<close>: one
  unit of the product at its sale price, with a random id (an argument here).
\<close>

definition newCartItem :: "product \<Rightarrow> string \<Rightarrow> saleItem" where
  "newCartItem product rid =
     \<lparr>item_id = rid, productId = product_id product, item_quantity = 1,
      unitPrice = salePrice product, item_total = salePrice product\<rparr>"

definition addProductToCart :: "product \<Rightarrow> string \<Rightarrow> store \<Rightarrow> outcome \<times> store" where
  "addProductToCart product rid s =
     (if quantity product \<le> 0 then (Failed InsufficientStock, s)
      else case find (\<lambda>item. productId item = product_id product) (cart s) of
             Some existingItem \<Rightarrow>
               if item_quantity existingItem \<ge> quantity product then (Failed InsufficientStock, s)
               else (Done, addToCart (newCartItem product rid) s)
           | None \<Rightarrow> (Done, addToCart (newCartItem product rid) s))"

definition updateQuantity :: "string \<Rightarrow> int \<Rightarrow> store \<Rightarrow> outcome \<times> store" where
  "updateQuantity pid delta s =
     (case find (\<lambda>i. productId i = pid) (cart s) of
        None \<Rightarrow> (Ignored, s)
      | Some item \<Rightarrow>
         (case find (\<lambda>p. product_id p = pid) (products s) of
            None \<Rightarrow> (Ignored, s)
          | Some product \<Rightarrow>
             (let newQuantity = item_quantity item + delta
              in if newQuantity \<le> 0 then (Done, removeFromCart pid s)
                 else if newQuantity > quantity product then (Failed InsufficientStock, s)
                 else (Done, updateCartItem pid newQuantity s))))"

text \<open>
  The totals the page shows and sells at. \<open>paid\<close> is \<open>parseFloat(paidAmount || '0')\<close>, the
  number typed into the payment field
  (\<open>paidNow\<close> below).
\<close>

definition pos_subtotal :: "store \<Rightarrow> rat" where
  "pos_subtotal s = getCartTotal s"

definition pos_vatAmount :: "store \<Rightarrow> rat" where
  "pos_vatAmount s = (pos_subtotal s * vatRate s) / 100"

definition pos_total :: "store \<Rightarrow> rat" where
  "pos_total s = pos_subtotal s + pos_vatAmount s"

definition pos_change :: "rat \<Rightarrow> store \<Rightarrow> rat" where
  "pos_change paidNow s = max 0 (paidNow - pos_total s)"

definition completeSale ::
  "paymentMethod \<Rightarrow> rat \<Rightarrow> string option \<Rightarrow> string \<Rightarrow> string \<Rightarrow> date \<Rightarrow> store \<Rightarrow> outcome \<times> store" where
  "completeSale method paidNow selectedCustomer currentUser rid now s =
     (if length (cart s) = 0 then (Failed EmptyCart, s)
      else if paidNow < pos_total s \<and> method \<noteq> Mixed then (Failed InsufficientPayment, s)
      else
        (let (newSale, s1) =
               addSale \<lparr>customerId = selectedCustomer, items = cart s, subtotal = pos_subtotal s,
                        vatAmount = pos_vatAmount s, sale_total = pos_total s,
                        sale_paymentMethod = method, paidAmount = paidNow, change = pos_change paidNow s,
                        sellerId = currentUser, sale_status = Completed\<rparr> rid now s
         in (Done, clearCart s1)))"

section \<open>Stock page: manual adjustment (pages/Stock.tsx)\<close>

definition addMovement :: "stockMovement \<Rightarrow> store \<Rightarrow> store" where
  "addMovement movement s = s\<lparr>movements := movement # movements s\<rparr>"

text \<open>
  The form of the dialog: the chosen product id, the direction (\<open>In\<close> or \<open>Out\<close>), the
  quantity field and the reason. The quantity field is \<open>None\<close> when it is empty and
  \<open>Some n\<close> when \<open>parseInt\<close> reads the whole number \<open>n\<close> from it (which may be zero or
  negative). The random id of the movement is an argument.
\<close>

definition handleAdjustment ::
  "string \<Rightarrow> movementType \<Rightarrow> int option \<Rightarrow> string \<Rightarrow> string \<Rightarrow> string \<Rightarrow> store \<Rightarrow> outcome \<times> store" where
  "handleAdjustment selectedProduct adjustmentType adjustmentQuantity adjustmentReason currentUser rid s =
     (case adjustmentQuantity of
        None \<Rightarrow> (Failed MissingFields, s)
      | Some qty \<Rightarrow>
          if selectedProduct = [] \<or> adjustmentReason = [] then (Failed MissingFields, s)
          else
            (case find (\<lambda>p. product_id p = selectedProduct) (products s) of
               None \<Rightarrow> (Ignored, s)
             | Some product \<Rightarrow>
                 (let newQuantity = (if adjustmentType = In then quantity product + qty
                                     else quantity product - qty)
                  in if newQuantity < 0 then (Failed InsufficientStock, s)
                     else (Done,
                           addMovement \<lparr>movement_id = rid, movement_productId = product_id product,
                                        movement_type = adjustmentType, movement_quantity = qty,
                                        reason = adjustmentReason, userId = currentUser\<rparr>
                             (updateProduct (product_id product) newQuantity s)))))"

section \<open>Debts store (store/index.ts) and debts page (pages/Debts.tsx)\<close>

text \<open>
  \<open>payDebt\<close> is the body of the callback that \<open>addPayment\<close> maps over the debts, for a
  debt whose id matches. The random id of the payment record and the current date are
  arguments. An absent \<open>payments\<close> field is the empty list.
\<close>

definition payDebt :: "string \<Rightarrow> paymentInput \<Rightarrow> string \<Rightarrow> date \<Rightarrow> debt \<Rightarrow> debt" where
  "payDebt did payment rid now d =
     (let newPaid = paid d + payment_amount payment;
          newRemaining = amount d - newPaid
      in d\<lparr>paid := newPaid,
            remaining := newRemaining,
            debt_status := (if newRemaining \<le> 0 then DebtPaid
                            else if newPaid > 0 then DebtPartial else DebtPending),
            payments := payments d @ [paymentInput.extend payment (debtPayment.fields rid did now)]\<rparr>)"

definition addPayment :: "string \<Rightarrow> paymentInput \<Rightarrow> string \<Rightarrow> date \<Rightarrow> store \<Rightarrow> store" where
  "addPayment did payment rid now s =
     s\<lparr>debts := map (\<lambda>d. if debt_id d = did then payDebt did payment rid now d else d) (debts s)\<rparr>"

text \<open>
  The page's handler checks the amount field (\<open>None\<close> when empty, else the number
  \<open>parseFloat\<close> reads) and shows a toast; it calls no store action.
\<close>

definition handlePayment :: "rat option \<Rightarrow> store \<Rightarrow> outcome \<times> store" where
  "handlePayment paymentAmount s =
     (case paymentAmount of
        None \<Rightarrow> (Failed InvalidAmount, s)
      | Some a \<Rightarrow> if a \<le> 0 then (Failed InvalidAmount, s) else (Done, s))"


section \<open>Sequences of sales\<close>

text \<open>
  Sales recorded and cancelled one after the other; the run collects the invoice numbers
  of the sales it records, in the order of recording.
\<close>

datatype saleOp = AddSale saleDraft string date | CancelSale string

fun runSaleOps :: "saleOp list \<Rightarrow> store \<Rightarrow> string list \<times> store" where
  "runSaleOps [] s = ([], s)"
| "runSaleOps (AddSale draft rid now # ops) s =
     (let (newSale, s1) = addSale draft rid now s;
          (numbers, s2) = runSaleOps ops s1
      in (invoiceNumber newSale # numbers, s2))"
| "runSaleOps (CancelSale sid # ops) s = runSaleOps ops (cancelSale sid s)"

section \<open>Notions used to state the properties\<close>

text \<open>
  The quantity already in the cart for a product, as \<open>addProductToCart\<close> reads it: the
  quantity of the line \<open>cart.find\<close> returns, and nothing when there is no such line.
\<close>

definition existingCartQuantity :: "string \<Rightarrow> store \<Rightarrow> int" where
  "existingCartQuantity pid s =
     (case find (\<lambda>item. productId item = pid) (cart s) of
        Some existingItem \<Rightarrow> item_quantity existingItem
      | None \<Rightarrow> 0)"

text \<open>The cart lines of the other products, in cart order.\<close>

definition otherLines :: "string \<Rightarrow> store \<Rightarrow> saleItem list" where
  "otherLines pid s = filter (\<lambda>i. productId i \<noteq> pid) (cart s)"

section \<open>Example data\<close>

text \<open>Concrete stores, products and cart lines at which the theorems below are evaluated.\<close>

definition emptyStore :: store where
  "emptyStore = \<lparr>products = [], sales = [], cart = [], movements = [], debts = [], vatRate = 20\<rparr>"

definition lineA :: saleItem where
  "lineA = \<lparr>item_id = ''r1'', productId = ''A'', item_quantity = 1, unitPrice = 10, item_total = 10\<rparr>"

definition lineB :: saleItem where
  "lineB = \<lparr>item_id = ''r2'', productId = ''B'', item_quantity = 1, unitPrice = 5, item_total = 5\<rparr>"

definition exampleCartOps :: "cartOp list" where
  "exampleCartOps =
     [AddToCart lineA, AddToCart lineB, AddToCart lineA, UpdateCartItem ''B'' 3, RemoveFromCart ''C'']"

definition november :: date where
  "november = \<lparr>fullYear = 2026, monthIndex = 10\<rparr>"

definition december :: date where
  "december = \<lparr>fullYear = 2026, monthIndex = 11\<rparr>"

definition productA :: product where
  "productA = \<lparr>product_id = ''A'', name = ''Product A'', sku = ''SKU-A'', purchasePrice = 6,
                 salePrice = 10, quantity = 2, minQuantity = 5\<rparr>"

definition productB :: product where
  "productB = \<lparr>product_id = ''B'', name = ''Product B'', sku = ''SKU-B'', purchasePrice = 3,
                 salePrice = 5, quantity = 4, minQuantity = 5\<rparr>"

definition productC :: product where
  "productC = \<lparr>product_id = ''C'', name = ''Product C'', sku = ''SKU-C'', purchasePrice = 1,
                 salePrice = 2, quantity = 50, minQuantity = 5\<rparr>"

definition lineA2 :: saleItem where
  "lineA2 = \<lparr>item_id = ''r1'', productId = ''A'', item_quantity = 2, unitPrice = 10, item_total = 20\<rparr>"

text \<open>Two units of A and one of B in the cart, with two of A and four of B in stock.\<close>

definition saleStore :: store where
  "saleStore = \<lparr>products = [productA, productB], sales = [], cart = [lineA2, lineB],
                  movements = [], debts = [], vatRate = 20\<rparr>"

text \<open>The same cart, with five of A and none of B in stock.\<close>

definition shortStore :: store where
  "shortStore = \<lparr>products = [productA\<lparr>quantity := 5\<rparr>, productB\<lparr>quantity := 0\<rparr>], sales = [],
                   cart = [lineA2, lineB], movements = [], debts = [], vatRate = 20\<rparr>"

text \<open>One unit of A in stock and an empty cart.\<close>

definition oneLeftStore :: store where
  "oneLeftStore = \<lparr>products = [productA\<lparr>quantity := 1\<rparr>], sales = [], cart = [],
                     movements = [], debts = [], vatRate = 20\<rparr>"

text \<open>A sold out, B low (4 of a minimum of 5), C well stocked.\<close>

definition stockStore :: store where
  "stockStore = \<lparr>products = [productA\<lparr>quantity := 0\<rparr>, productB, productC], sales = [], cart = [],
                   movements = [], debts = [], vatRate = 20\<rparr>"

definition halfPaidDebt :: debt where
  "halfPaidDebt = \<lparr>debt_id = ''d1'', debt_customerId = ''c1'', amount = 500, paid = 200,
                     remaining = 300, debt_status = DebtPartial, payments = []\<rparr>"

definition zeroDebt :: debt where
  "zeroDebt = \<lparr>debt_id = ''d0'', debt_customerId = ''c2'', amount = 0, paid = 0,
                 remaining = 0, debt_status = DebtPending, payments = []\<rparr>"

definition debtStore :: store where
  "debtStore = \<lparr>products = [], sales = [], cart = [], movements = [],
                  debts = [halfPaidDebt, zeroDebt], vatRate = 20\<rparr>"



definition paymentNegative :: paymentInput where
  "paymentNegative = \<lparr>payment_amount = - 50, payment_method = ''cash'', payment_note = None\<rparr>"

definition emptyDraft :: saleDraft where
  "emptyDraft = \<lparr>customerId = None, items = [], subtotal = 0, vatAmount = 0, sale_total = 0,
                   sale_paymentMethod = Cash, paidAmount = 0, change = 0, sellerId = ''u1'',
                   sale_status = Completed\<rparr>"

text \<open>A sale in November, its cancellation, and a sale in December.\<close>

definition exampleSaleOps :: "saleOp list" where
  "exampleSaleOps = [AddSale emptyDraft ''s1'' november, CancelSale ''s1'', AddSale emptyDraft ''s2'' december]"

text \<open>
  From one unit of A in stock and an empty cart: the unit is put in the cart, then the
  stock page takes one unit of A out of stock, then the sale is completed.
\<close>

definition oneInCart :: store where
  "oneInCart = snd (addProductToCart (productA\<lparr>quantity := 1\<rparr>) ''r1'' oneLeftStore)"

definition adjustedOut :: store where
  "adjustedOut = snd (handleAdjustment ''A'' Out (Some 1) ''inventory'' ''u1'' ''m1'' oneInCart)"

definition committed :: store where
  "committed = snd (completeSale Cash 12 None ''u1'' ''s1'' november adjustedOut)"

text \<open>
  From one unit of A in stock and the unit in the cart: product A is deleted on the
  products page. The cart keeps its line.
\<close>

definition orphanStore :: store where
  "orphanStore = deleteProduct ''A'' oneInCart"

section \<open>The cart keeps its line totals\<close>

lemma lineConsistent_addToCart:
  "\<forall>i\<in>set (cart s). lineConsistent i \<Longrightarrow> lineConsistent item \<Longrightarrow>
   \<forall>i\<in>set (cart (addToCart item s)). lineConsistent i"
  by (cases "find (\<lambda>i. productId i = productId item) (cart s)")
     (auto simp: addToCart_def lineConsistent_def)

lemma lineConsistent_updateCartItem:
  "\<forall>i\<in>set (cart s). lineConsistent i \<Longrightarrow>
   \<forall>i\<in>set (cart (updateCartItem pid q s)). lineConsistent i"
  by (auto simp: updateCartItem_def lineConsistent_def)

lemma lineConsistent_removeFromCart:
  "\<forall>i\<in>set (cart s). lineConsistent i \<Longrightarrow>
   \<forall>i\<in>set (cart (removeFromCart pid s)). lineConsistent i"
  by (auto simp: removeFromCart_def)

lemma lineConsistent_applyCartOp:
  assumes "\<forall>i\<in>set (cart s). lineConsistent i" and "addedItemsConsistent (op # ops)"
  shows "\<forall>i\<in>set (cart (applyCartOp op s)). lineConsistent i"
proof (cases op)
  case (AddToCart item)
  with assms(2) have "lineConsistent item" by simp
  with assms(1) show ?thesis
    unfolding AddToCart applyCartOp.simps by (rule lineConsistent_addToCart)
next
  case (UpdateCartItem pid q)
  from assms(1) show ?thesis
    unfolding UpdateCartItem applyCartOp.simps by (rule lineConsistent_updateCartItem)
next
  case (RemoveFromCart pid)
  from assms(1) show ?thesis
    unfolding RemoveFromCart applyCartOp.simps by (rule lineConsistent_removeFromCart)
qed

lemma addedItemsConsistent_tail: "addedItemsConsistent (op # ops) \<Longrightarrow> addedItemsConsistent ops"
  by (cases op) simp_all

lemma lineConsistent_runCartOps:
  "\<forall>i\<in>set (cart s). lineConsistent i \<Longrightarrow> addedItemsConsistent ops \<Longrightarrow>
   \<forall>i\<in>set (cart (runCartOps ops s)). lineConsistent i"
proof (induction ops arbitrary: s)
  case Nil
  then show ?case by simp
next
  case (Cons op ops)
  have step: "\<forall>i\<in>set (cart (applyCartOp op s)). lineConsistent i"
    using Cons.prems by (rule lineConsistent_applyCartOp)
  have rest: "addedItemsConsistent ops"
    using Cons.prems(2) by (rule addedItemsConsistent_tail)
  have "\<forall>i\<in>set (cart (runCartOps ops (applyCartOp op s))). lineConsistent i"
    using step rest by (rule Cons.IH)
  then show ?case by simp
qed

lemma foldl_add_sum_list:
  fixes a :: rat
  shows "foldl (\<lambda>total item. total + f item) a xs = a + sum_list (map f xs)"
proof (induction xs arbitrary: a)
  case Nil
  show ?case by simp
next
  case (Cons x xs)
  have "foldl (\<lambda>total item. total + f item) a (x # xs)
      = foldl (\<lambda>total item. total + f item) (a + f x) xs" by simp
  also have "\<dots> = (a + f x) + sum_list (map f xs)" by (rule Cons.IH)
  also have "\<dots> = a + sum_list (map f (x # xs))" by simp
  finally show ?case .
qed

lemma getCartTotal_sum_list: "getCartTotal s = sum_list (map item_total (cart s))"
  unfolding getCartTotal_def by (simp only: foldl_add_sum_list add_0_left)

text \<open>
  Claim C10. Starting from the empty cart, if every item handed to \<open>addToCart\<close> has
  total = quantity \<times> unit price, then after any sequence of \<open>addToCart\<close>,
  \<open>updateCartItem\<close> and \<open>removeFromCart\<close> every cart line has total = quantity \<times> unit
  price, and \<open>getCartTotal\<close> is the sum over the lines of quantity \<times> unit price.
\<close>

theorem cart_lines_consistent:
  assumes "cart s0 = []" and "addedItemsConsistent ops"
  shows "(\<forall>i\<in>set (cart (runCartOps ops s0)). item_total i = of_int (item_quantity i) * unitPrice i)
       \<and> getCartTotal (runCartOps ops s0)
           = (\<Sum>i\<leftarrow>cart (runCartOps ops s0). of_int (item_quantity i) * unitPrice i)"
proof -
  have "\<forall>i\<in>set (cart s0). lineConsistent i"
    using assms(1) by simp
  then have inv: "\<forall>i\<in>set (cart (runCartOps ops s0)). lineConsistent i"
    using assms(2) by (rule lineConsistent_runCartOps)
  then have lines: "\<forall>i\<in>set (cart (runCartOps ops s0)).
      item_total i = of_int (item_quantity i) * unitPrice i"
    unfolding lineConsistent_def .
  then have "map item_total (cart (runCartOps ops s0))
           = map (\<lambda>i. of_int (item_quantity i) * unitPrice i) (cart (runCartOps ops s0))"
    by (intro map_cong) simp_all
  then have "getCartTotal (runCartOps ops s0)
           = (\<Sum>i\<leftarrow>cart (runCartOps ops s0). of_int (item_quantity i) * unitPrice i)"
    by (simp only: getCartTotal_sum_list)
  with lines show ?thesis by (rule conjI)
qed

theorem cart_lines_consistent_witness:
  "cart emptyStore = [] \<and> addedItemsConsistent exampleCartOps
   \<and> list_all lineConsistent (cart (runCartOps exampleCartOps emptyStore))
   \<and> getCartTotal (runCartOps exampleCartOps emptyStore) = 35"
proof -
  have h1: "cart emptyStore = []" by (simp add: emptyStore_def)
  have h2: "addedItemsConsistent exampleCartOps"
    by (simp add: exampleCartOps_def lineConsistent_def lineA_def lineB_def)
  from cart_lines_consistent [OF h1 h2] h1 h2 show ?thesis
    by (simp add: exampleCartOps_def lineA_def lineB_def emptyStore_def addToCart_def
        updateCartItem_def removeFromCart_def getCartTotal_def lineConsistent_def)
qed

text \<open>
  The cart holds at most one line per product: the cart actions keep the product ids of
  the lines distinct, so the line \<open>cart.find\<close> returns for a product is its only line.
\<close>

lemma find_None_productId:
  "find (\<lambda>i. productId i = pid) xs = None \<longleftrightarrow> pid \<notin> productId ` set xs"
  by (induction xs) auto

lemma productIds_map_update:
  assumes "\<And>i. productId (g i) = productId i"
  shows "map productId (map (\<lambda>i. if c i then g i else i) xs) = map productId xs"
  by (induction xs) (simp_all add: assms)

lemma one_line_per_product_applyCartOp:
  assumes "distinct (map productId (cart s))"
  shows "distinct (map productId (cart (applyCartOp op s)))"
proof (cases op)
  case (AddToCart item)
  show ?thesis
  proof (cases "find (\<lambda>i. productId i = productId item) (cart s)")
    case None
    then have "productId item \<notin> productId ` set (cart s)"
      by (simp add: find_None_productId)
    with assms None show ?thesis
      by (simp add: AddToCart addToCart_def)
  next
    case (Some existingItem)
    have "map productId (cart (addToCart item s)) = map productId (cart s)"
      unfolding addToCart_def Some
      by (simp add: productIds_map_update del: map_map)
    with assms show ?thesis
      by (simp only: AddToCart applyCartOp.simps)
  qed
next
  case (UpdateCartItem pid q)
  have "map productId (cart (updateCartItem pid q s)) = map productId (cart s)"
    unfolding updateCartItem_def
    by (simp add: productIds_map_update del: map_map)
  with assms show ?thesis
    by (simp only: UpdateCartItem applyCartOp.simps)
next
  case (RemoveFromCart pid)
  from assms show ?thesis
    by (simp add: RemoveFromCart removeFromCart_def distinct_map_filter)
qed

lemma one_line_per_product:
  "distinct (map productId (cart s)) \<Longrightarrow> distinct (map productId (cart (runCartOps ops s)))"
proof (induction ops arbitrary: s)
  case Nil
  then show ?case by simp
next
  case (Cons op ops)
  from Cons.prems have "distinct (map productId (cart (applyCartOp op s)))"
    by (rule one_line_per_product_applyCartOp)
  then have "distinct (map productId (cart (runCartOps ops (applyCartOp op s))))"
    by (rule Cons.IH)
  then show ?case by simp
qed

section \<open>Adding to the cart and changing a line's quantity (point of sale page)\<close>

lemma find_filter_neq: "find (\<lambda>i. f i = k) (filter (\<lambda>i. f i \<noteq> k) xs) = None"
  by (induction xs) simp_all

lemma find_map_update:
  assumes "find (\<lambda>i. productId i = pid) xs = Some item"
    and "\<And>i. productId (g i) = productId i"
  shows "find (\<lambda>i. productId i = pid) (map (\<lambda>i. if productId i = pid then g i else i) xs) = Some (g item)"
  using assms(1)
proof (induction xs)
  case Nil
  then show ?case by simp
next
  case (Cons x xs)
  show ?case
  proof (cases "productId x = pid")
    case True
    with Cons.prems have "x = item" by simp
    with True show ?thesis by (simp add: assms(2))
  next
    case False
    with Cons.prems have "find (\<lambda>i. productId i = pid) xs = Some item" by simp
    then have "find (\<lambda>i. productId i = pid) (map (\<lambda>i. if productId i = pid then g i else i) xs) = Some (g item)"
      by (rule Cons.IH)
    with False show ?thesis by simp
  qed
qed

lemma filter_neq_map_update:
  "filter (\<lambda>i. productId i \<noteq> pid) (map (\<lambda>i. if productId i = pid then g i else i) xs)
   = filter (\<lambda>i. productId i \<noteq> pid) xs" if "\<And>i. productId (g i) = productId i"
  by (induction xs) (simp_all add: that)

text \<open>
  Claim C5. For every product with \<open>N\<close> units available and every cart: if the quantity
  already in the cart for that product plus the requested quantity exceeds \<open>N\<close>, adding
  the line fails with \<open>InsufficientStock\<close> and the cart (the whole store) is unchanged.
  The requested quantity is the quantity of the item that \<open>addProductToCart\<close> builds,
  which is one unit on every call: the handler takes no quantity argument.
\<close>

theorem addProductToCart_insufficient_stock:
  assumes "existingCartQuantity (product_id product) s + item_quantity (newCartItem product rid)
           > quantity product"
  shows "addProductToCart product rid s = (Failed InsufficientStock, s)"
proof (cases "find (\<lambda>item. productId item = product_id product) (cart s)")
  case None
  with assms have "quantity product \<le> 0"
    by (simp add: existingCartQuantity_def newCartItem_def)
  then show ?thesis
    by (simp add: addProductToCart_def)
next
  case (Some existingItem)
  with assms have "item_quantity existingItem \<ge> quantity product"
    by (simp add: existingCartQuantity_def newCartItem_def)
  with Some show ?thesis
    by (simp add: addProductToCart_def)
qed

theorem addProductToCart_insufficient_stock_witness:
  "existingCartQuantity (product_id productA) saleStore + item_quantity (newCartItem productA ''r3'')
     > quantity productA
   \<and> existingCartQuantity (product_id productA) saleStore = 2
   \<and> quantity productA = 2
   \<and> addProductToCart productA ''r3'' saleStore = (Failed InsufficientStock, saleStore)"
proof -
  have e: "existingCartQuantity (product_id productA) saleStore = 2" and q: "quantity productA = 2"
    by (simp_all add: existingCartQuantity_def productA_def saleStore_def lineA2_def lineB_def)
  have h: "existingCartQuantity (product_id productA) saleStore + item_quantity (newCartItem productA ''r3'')
           > quantity productA"
    by (simp add: e q newCartItem_def)
  from addProductToCart_insufficient_stock [OF h] h e q show ?thesis
    by simp
qed

text \<open>
  On success the handler adds exactly one unit: a new line of one unit when the product
  has none, one more unit on its line otherwise.
\<close>

lemma addProductToCart_adds_one_unit:
  assumes "existingCartQuantity (product_id product) s + 1 \<le> quantity product"
    and "find (\<lambda>item. productId item = product_id product) (cart s) = None
         \<or> 0 < quantity product"
  shows "fst (addProductToCart product rid s) = Done
       \<and> existingCartQuantity (product_id product) (snd (addProductToCart product rid s))
           = existingCartQuantity (product_id product) s + 1"
proof (cases "find (\<lambda>item. productId item = product_id product) (cart s)")
  case None
  with assms(1) have pos: "0 < quantity product"
    by (simp add: existingCartQuantity_def)
  have "find (\<lambda>item. productId item = product_id product) (xs @ [newCartItem product rid])
        = Some (newCartItem product rid)"
    if "find (\<lambda>item. productId item = product_id product) xs = None" for xs
    using that by (induction xs) (auto simp: newCartItem_def split: if_splits)
  from this [OF None] None pos show ?thesis
    by (simp add: addProductToCart_def addToCart_def existingCartQuantity_def newCartItem_def)
next
  case (Some existingItem)
  with assms have less: "item_quantity existingItem < quantity product" and pos: "0 < quantity product"
    by (simp_all add: existingCartQuantity_def)
  define bump :: "saleItem \<Rightarrow> saleItem" where "bump = (\<lambda>i. i\<lparr>item_quantity := item_quantity i + 1,
                                     item_total := of_int (item_quantity i + 1) * unitPrice i\<rparr>)"
  have after: "cart (addToCart (newCartItem product rid) s)
             = map (\<lambda>i. if productId i = product_id product then bump i else i) (cart s)"
    using Some by (simp add: addToCart_def newCartItem_def bump_def)
  have "find (\<lambda>i. productId i = product_id product)
          (map (\<lambda>i. if productId i = product_id product then bump i else i) (cart s))
        = Some (bump existingItem)"
    by (rule find_map_update [OF Some]) (simp add: bump_def)
  then have "existingCartQuantity (product_id product) (addToCart (newCartItem product rid) s)
           = item_quantity (bump existingItem)"
    by (simp only: existingCartQuantity_def after option.case)
  also have "\<dots> = existingCartQuantity (product_id product) s + 1"
    using Some by (simp add: bump_def existingCartQuantity_def)
  finally have grown: "existingCartQuantity (product_id product) (addToCart (newCartItem product rid) s)
           = existingCartQuantity (product_id product) s + 1" .
  have "addProductToCart product rid s = (Done, addToCart (newCartItem product rid) s)"
    using Some less pos by (simp add: addProductToCart_def)
  with grown show ?thesis by simp
qed

text \<open>
  With the product of the line on hand, the handler does what its three branches say.
\<close>

lemma updateQuantity_with_product:
  assumes line: "find (\<lambda>i. productId i = pid) (cart s) = Some item"
    and prod: "find (\<lambda>p. product_id p = pid) (products s) = Some product"
    and new: "newQty = item_quantity item + delta"
  shows "(newQty \<le> 0 \<longrightarrow>
            fst (updateQuantity pid delta s) = Done
          \<and> find (\<lambda>i. productId i = pid) (cart (snd (updateQuantity pid delta s))) = None
          \<and> otherLines pid (snd (updateQuantity pid delta s)) = otherLines pid s)
       \<and> (0 < newQty \<and> newQty > quantity product \<longrightarrow>
            updateQuantity pid delta s = (Failed InsufficientStock, s))
       \<and> (0 < newQty \<and> newQty \<le> quantity product \<longrightarrow>
            fst (updateQuantity pid delta s) = Done
          \<and> find (\<lambda>i. productId i = pid) (cart (snd (updateQuantity pid delta s)))
              = Some (item\<lparr>item_quantity := newQty, item_total := of_int newQty * unitPrice item\<rparr>)
          \<and> length (cart (snd (updateQuantity pid delta s))) = length (cart s)
          \<and> otherLines pid (snd (updateQuantity pid delta s)) = otherLines pid s)"
proof (intro conjI impI)
  assume "newQty \<le> 0"
  then have eq: "updateQuantity pid delta s = (Done, removeFromCart pid s)"
    using line prod new by (simp add: updateQuantity_def)
  show "fst (updateQuantity pid delta s) = Done" by (simp add: eq)
  show "find (\<lambda>i. productId i = pid) (cart (snd (updateQuantity pid delta s))) = None"
    by (simp add: eq removeFromCart_def find_filter_neq)
  show "otherLines pid (snd (updateQuantity pid delta s)) = otherLines pid s"
    by (simp add: eq removeFromCart_def otherLines_def)
next
  assume "0 < newQty \<and> newQty > quantity product"
  then show "updateQuantity pid delta s = (Failed InsufficientStock, s)"
    using line prod new by (simp add: updateQuantity_def)
next
  assume "0 < newQty \<and> newQty \<le> quantity product"
  then have eq: "updateQuantity pid delta s = (Done, updateCartItem pid newQty s)"
    using line prod new by (simp add: updateQuantity_def)
  show "fst (updateQuantity pid delta s) = Done" by (simp add: eq)
  show "find (\<lambda>i. productId i = pid) (cart (snd (updateQuantity pid delta s)))
      = Some (item\<lparr>item_quantity := newQty, item_total := of_int newQty * unitPrice item\<rparr>)"
    using find_map_update [OF line, of "\<lambda>i. i\<lparr>item_quantity := newQty, item_total := of_int newQty * unitPrice i\<rparr>"]
    by (simp add: eq updateCartItem_def)
  show "length (cart (snd (updateQuantity pid delta s))) = length (cart s)"
    by (simp add: eq updateCartItem_def)
  show "otherLines pid (snd (updateQuantity pid delta s)) = otherLines pid s"
    using filter_neq_map_update [of "\<lambda>i. i\<lparr>item_quantity := newQty, item_total := of_int newQty * unitPrice i\<rparr>" pid "cart s"]
    by (simp add: eq updateCartItem_def otherLines_def)
qed

text \<open>
  Claim C6 fails as stated: one unit of product A is in the cart and product A has
  been deleted from the product list. The new quantity 1 \<open>-\<close> 1 = 0 is \<open>\<le> 0\<close>, yet the
  line is not removed: the handler looks the product up first, does not find it, and
  returns without doing anything.
\<close>

theorem updateQuantity_deleted_product_counterexample:
  "map productId (cart orphanStore) = [''A'']
   \<and> map item_quantity (cart orphanStore) = [1]
   \<and> products orphanStore = []
   \<and> existingCartQuantity ''A'' orphanStore + (- 1) \<le> 0
   \<and> updateQuantity ''A'' (- 1) orphanStore = (Ignored, orphanStore)
   \<and> map productId (cart (snd (updateQuantity ''A'' (- 1) orphanStore))) = [''A'']"
  by (simp add: orphanStore_def deleteProduct_def oneInCart_def oneLeftStore_def productA_def
      addProductToCart_def newCartItem_def addToCart_def updateQuantity_def
      existingCartQuantity_def)

text \<open>
  Claim C6, amended. For a cart line of product \<open>pid\<close> (the line \<open>cart.find\<close> returns)
  and the new quantity \<open>newQty\<close> (the line's quantity plus the handler's \<open>delta\<close>):
  when the product is no longer in the product list, the handler does nothing, whatever
  \<open>newQty\<close> is: no error, store unchanged. When the product is in the list: if
  \<open>newQty \<le> 0\<close> the line is removed from the cart and the lines of other products stay;
  otherwise, if \<open>newQty\<close> exceeds the product's quantity on hand, the handler fails
  with \<open>InsufficientStock\<close> and the store is unchanged; otherwise the line gets quantity
  \<open>newQty\<close> and total \<open>newQty\<close> \<times> unit price, and nothing else in the cart changes.
\<close>

theorem updateQuantity_cases:
  assumes line: "find (\<lambda>i. productId i = pid) (cart s) = Some item"
    and new: "newQty = item_quantity item + delta"
  shows "(find (\<lambda>p. product_id p = pid) (products s) = None \<longrightarrow>
            updateQuantity pid delta s = (Ignored, s))
       \<and> (\<forall>product. find (\<lambda>p. product_id p = pid) (products s) = Some product \<longrightarrow>
           (newQty \<le> 0 \<longrightarrow>
              fst (updateQuantity pid delta s) = Done
            \<and> find (\<lambda>i. productId i = pid) (cart (snd (updateQuantity pid delta s))) = None
            \<and> otherLines pid (snd (updateQuantity pid delta s)) = otherLines pid s)
         \<and> (0 < newQty \<and> newQty > quantity product \<longrightarrow>
              updateQuantity pid delta s = (Failed InsufficientStock, s))
         \<and> (0 < newQty \<and> newQty \<le> quantity product \<longrightarrow>
              fst (updateQuantity pid delta s) = Done
            \<and> find (\<lambda>i. productId i = pid) (cart (snd (updateQuantity pid delta s)))
                = Some (item\<lparr>item_quantity := newQty, item_total := of_int newQty * unitPrice item\<rparr>)
            \<and> length (cart (snd (updateQuantity pid delta s))) = length (cart s)
            \<and> otherLines pid (snd (updateQuantity pid delta s)) = otherLines pid s))"
proof (rule conjI, rule impI, goal_cases)
  case 1
  with line show "updateQuantity pid delta s = (Ignored, s)"
    by (simp add: updateQuantity_def)
next
  case 2
  show ?case
  proof (rule allI, rule impI)
    fix product
    assume prod: "find (\<lambda>p. product_id p = pid) (products s) = Some product"
    show "(newQty \<le> 0 \<longrightarrow>
                fst (updateQuantity pid delta s) = Done
              \<and> find (\<lambda>i. productId i = pid) (cart (snd (updateQuantity pid delta s))) = None
              \<and> otherLines pid (snd (updateQuantity pid delta s)) = otherLines pid s)
           \<and> (0 < newQty \<and> newQty > quantity product \<longrightarrow>
                updateQuantity pid delta s = (Failed InsufficientStock, s))
           \<and> (0 < newQty \<and> newQty \<le> quantity product \<longrightarrow>
                fst (updateQuantity pid delta s) = Done
              \<and> find (\<lambda>i. productId i = pid) (cart (snd (updateQuantity pid delta s)))
                  = Some (item\<lparr>item_quantity := newQty, item_total := of_int newQty * unitPrice item\<rparr>)
              \<and> length (cart (snd (updateQuantity pid delta s))) = length (cart s)
              \<and> otherLines pid (snd (updateQuantity pid delta s)) = otherLines pid s)"
      using line prod new by (rule updateQuantity_with_product)
  qed
qed

theorem updateQuantity_cases_witness:
  "find (\<lambda>i. productId i = ''A'') (cart saleStore) = Some lineA2
   \<and> find (\<lambda>p. product_id p = ''A'') (products saleStore) = Some productA
   \<and> find (\<lambda>i. productId i = ''A'') (cart (snd (updateQuantity ''A'' (- 2) saleStore))) = None
   \<and> updateQuantity ''A'' 1 saleStore = (Failed InsufficientStock, saleStore)
   \<and> find (\<lambda>i. productId i = ''B'') (cart (snd (updateQuantity ''B'' 2 saleStore)))
       = Some (lineB\<lparr>item_quantity := 3, item_total := 15\<rparr>)
   \<and> find (\<lambda>p. product_id p = ''A'') (products orphanStore) = None
   \<and> updateQuantity ''A'' 5 orphanStore = (Ignored, orphanStore)"
proof -
  have la: "find (\<lambda>i. productId i = ''A'') (cart saleStore) = Some lineA2"
    by (simp add: saleStore_def lineA2_def)
  have pa: "find (\<lambda>p. product_id p = ''A'') (products saleStore) = Some productA"
    by (simp add: saleStore_def productA_def)
  have lb: "find (\<lambda>i. productId i = ''B'') (cart saleStore) = Some lineB"
    by (simp add: saleStore_def lineA2_def lineB_def)
  have pb: "find (\<lambda>p. product_id p = ''B'') (products saleStore) = Some productB"
    by (simp add: saleStore_def productA_def productB_def)
  have lo: "find (\<lambda>i. productId i = ''A'') (cart orphanStore)
          = Some (newCartItem (productA\<lparr>quantity := 1\<rparr>) ''r1'')"
    by (simp add: orphanStore_def deleteProduct_def oneInCart_def oneLeftStore_def productA_def
        addProductToCart_def newCartItem_def addToCart_def)
  have po: "find (\<lambda>p. product_id p = ''A'') (products orphanStore) = None"
    by (simp add: orphanStore_def deleteProduct_def oneInCart_def oneLeftStore_def productA_def
        addProductToCart_def newCartItem_def addToCart_def)
  have remove: "find (\<lambda>i. productId i = ''A'') (cart (snd (updateQuantity ''A'' (- 2) saleStore))) = None"
    using updateQuantity_cases [OF la, of 0 "- 2"] pa
    by (simp add: lineA2_def)
  have refuse: "updateQuantity ''A'' 1 saleStore = (Failed InsufficientStock, saleStore)"
    using updateQuantity_cases [OF la, of 3 1] pa
    by (simp add: lineA2_def productA_def)
  have replace: "find (\<lambda>i. productId i = ''B'') (cart (snd (updateQuantity ''B'' 2 saleStore)))
       = Some (lineB\<lparr>item_quantity := 3, item_total := 15\<rparr>)"
    using updateQuantity_cases [OF lb, of 3 2] pb
    by (simp add: lineB_def productB_def)
  have ignore: "updateQuantity ''A'' 5 orphanStore = (Ignored, orphanStore)"
    using updateQuantity_cases [OF lo, of 6 5] po
    by (simp add: newCartItem_def)
  from la pa remove refuse replace po ignore show ?thesis
    by simp
qed

section \<open>Completing a sale\<close>

lemma find_updateProduct_same:
  assumes "find (\<lambda>p. product_id p = a) (products s) = Some pa"
  shows "find (\<lambda>p. product_id p = a) (products (updateProduct a q s)) = Some (pa\<lparr>quantity := q\<rparr>)"
proof -
  have "find (\<lambda>p. product_id p = a) (map (\<lambda>p. if product_id p = a then p\<lparr>quantity := q\<rparr> else p) ps)
        = Some (pa\<lparr>quantity := q\<rparr>)"
    if "find (\<lambda>p. product_id p = a) ps = Some pa" for ps
    using that by (induction ps) (auto split: if_splits)
  from this [OF assms] show ?thesis by (simp add: updateProduct_def)
qed

lemma find_updateProduct_other:
  assumes "a \<noteq> b"
  shows "find (\<lambda>p. product_id p = a) (products (updateProduct b q s))
       = find (\<lambda>p. product_id p = a) (products s)"
proof -
  have "find (\<lambda>p. product_id p = a) (map (\<lambda>p. if product_id p = b then p\<lparr>quantity := q\<rparr> else p) ps)
        = find (\<lambda>p. product_id p = a) ps" for ps
    using assms by (induction ps) auto
  then show ?thesis by (simp add: updateProduct_def)
qed

lemma sales_updateProduct [simp]: "sales (updateProduct pid q s) = sales s"
  and cart_updateProduct [simp]: "cart (updateProduct pid q s) = cart s"
  by (simp_all add: updateProduct_def)

lemma decrementStock_frame:
  "sales (decrementStock snapshot item s) = sales s"
  "cart (decrementStock snapshot item s) = cart s"
  by (simp_all add: decrementStock_def split: option.split)

text \<open>
  Claim C7. Committing a cart with exactly the lines (product A, quantity 2, unit price
  10) and (product B, quantity 1, unit price 5), each line's total being quantity \<times>
  unit price, at a VAT rate of 20 records a sale with subtotal 25, VAT 5 and total 30;
  and if product A had 2 on hand before the commit, it has 0 after. The payment is one
  that the page accepts: at least the total of 30, or the mixed method.
\<close>

theorem completeSale_two_lines:
  assumes s'_def: "s' = snd (completeSale method paidNow selectedCustomer currentUser rid now s)"
    and lines: "cart s = [la, lb]"
    and la: "productId la = a" "item_quantity la = 2" "unitPrice la = 10" "lineConsistent la"
    and lb: "productId lb = b" "item_quantity lb = 1" "unitPrice lb = 5" "lineConsistent lb"
    and distinct: "a \<noteq> b"
    and vat: "vatRate s = 20"
    and pay: "paidNow \<ge> 30 \<or> method = Mixed"
    and pa: "find (\<lambda>p. product_id p = a) (products s) = Some pa" "quantity pa = 2"
  shows "fst (completeSale method paidNow selectedCustomer currentUser rid now s) = Done
       \<and> length (sales s') = length (sales s) + 1
       \<and> subtotal (hd (sales s')) = 25
       \<and> vatAmount (hd (sales s')) = 5
       \<and> sale_total (hd (sales s')) = 30
       \<and> find (\<lambda>p. product_id p = a) (products s') = Some (pa\<lparr>quantity := 0\<rparr>)"
proof -
  have sub: "pos_subtotal s = 25"
    using lines la lb by (simp add: pos_subtotal_def getCartTotal_def lineConsistent_def)
  then have vatA: "pos_vatAmount s = 5"
    using vat by (simp add: pos_vatAmount_def)
  with sub have tot: "pos_total s = 30"
    by (simp add: pos_total_def)
  define draft where "draft = \<lparr>customerId = selectedCustomer, items = cart s, subtotal = pos_subtotal s,
                        vatAmount = pos_vatAmount s, sale_total = pos_total s,
                        sale_paymentMethod = method, paidAmount = paidNow, change = pos_change paidNow s,
                        sellerId = currentUser, sale_status = Completed\<rparr>"
  have run: "completeSale method paidNow selectedCustomer currentUser rid now s
           = (Done, clearCart (snd (addSale draft rid now s)))"
    using pay lines tot by (auto simp: completeSale_def draft_def split: prod.splits)
  define snapshot where "snapshot = products s"
  define s1 where "s1 = s\<lparr>sales := saleDraft.extend draft (sale.fields rid (generateInvoiceNumber now s) now) # sales s\<rparr>"
  have after: "snd (addSale draft rid now s)
             = decrementStock snapshot lb (decrementStock snapshot la s1)"
    using lines by (simp add: addSale_def Let_def draft_def s1_def snapshot_def)
  have stepA: "decrementStock snapshot la s1 = updateProduct a 0 s1"
    using pa la by (simp add: decrementStock_def snapshot_def)
  have findA1: "find (\<lambda>p. product_id p = a) (products (updateProduct a 0 s1)) = Some (pa\<lparr>quantity := 0\<rparr>)"
    using pa(1) by (intro find_updateProduct_same) (simp add: s1_def)
  have findA2: "find (\<lambda>p. product_id p = a) (products (decrementStock snapshot lb (updateProduct a 0 s1)))
              = Some (pa\<lparr>quantity := 0\<rparr>)"
    using findA1 distinct lb(1)
    by (simp add: decrementStock_def find_updateProduct_other split: option.split)
  have s'_eq: "s' = clearCart (decrementStock snapshot lb (updateProduct a 0 s1))"
    by (simp add: s'_def run after stepA)
  have "fst (completeSale method paidNow selectedCustomer currentUser rid now s) = Done"
    by (simp add: run)
  moreover have "sales s' = sales s1"
    by (simp add: s'_eq clearCart_def decrementStock_frame)
  moreover have "subtotal (hd (sales s1)) = 25" "vatAmount (hd (sales s1)) = 5" "sale_total (hd (sales s1)) = 30"
    by (simp_all add: s1_def draft_def sub vatA tot saleDraft.defs sale.defs)
  moreover have "length (sales s1) = length (sales s) + 1"
    by (simp add: s1_def)
  moreover have "find (\<lambda>p. product_id p = a) (products s') = Some (pa\<lparr>quantity := 0\<rparr>)"
    using findA2 by (simp add: s'_eq clearCart_def)
  ultimately show ?thesis by simp
qed

theorem completeSale_two_lines_witness:
  "cart saleStore = [lineA2, lineB] \<and> vatRate saleStore = 20
   \<and> find (\<lambda>p. product_id p = ''A'') (products saleStore) = Some productA \<and> quantity productA = 2
   \<and> fst (completeSale Cash 30 None ''u1'' ''s1'' november saleStore) = Done
   \<and> subtotal (hd (sales (snd (completeSale Cash 30 None ''u1'' ''s1'' november saleStore)))) = 25
   \<and> vatAmount (hd (sales (snd (completeSale Cash 30 None ''u1'' ''s1'' november saleStore)))) = 5
   \<and> sale_total (hd (sales (snd (completeSale Cash 30 None ''u1'' ''s1'' november saleStore)))) = 30
   \<and> find (\<lambda>p. product_id p = ''A'') (products (snd (completeSale Cash 30 None ''u1'' ''s1'' november saleStore)))
       = Some (productA\<lparr>quantity := 0\<rparr>)"
proof -
  have c: "cart saleStore = [lineA2, lineB]" and v: "vatRate saleStore = 20"
    by (simp_all add: saleStore_def)
  have pa: "find (\<lambda>p. product_id p = ''A'') (products saleStore) = Some productA" "quantity productA = 2"
    by (simp_all add: saleStore_def productA_def)
  have la: "productId lineA2 = ''A''" "item_quantity lineA2 = 2" "unitPrice lineA2 = 10" "lineConsistent lineA2"
    by (simp_all add: lineA2_def lineConsistent_def)
  have lb: "productId lineB = ''B''" "item_quantity lineB = 1" "unitPrice lineB = 5" "lineConsistent lineB"
    by (simp_all add: lineB_def lineConsistent_def)
  have ne: "''A'' \<noteq> ''B''" by simp
  have pay: "(30::rat) \<ge> 30 \<or> Cash = Mixed" by simp
  from completeSale_two_lines [OF refl c la lb ne v pay pa, of None "''u1''" "''s1''" november]
  show ?thesis using c v pa by simp
qed

section \<open>Invoice numbers\<close>

lemma digitVal_digitChar: "d < 10 \<Longrightarrow> digitVal (digitChar d) = d"
proof -
  assume "d < 10"
  then have "d \<in> {0, 1, 2, 3, 4, 5, 6, 7, 8, 9}" by auto
  then show ?thesis
    by (auto simp: digitVal_def digitChar_def)
qed

lemma digitChar_not_dash: "d < 10 \<Longrightarrow> digitChar d \<noteq> CHR ''-''"
proof -
  assume "d < 10"
  then have "d \<in> {0, 1, 2, 3, 4, 5, 6, 7, 8, 9}" by auto
  then show ?thesis
    by (auto simp: digitChar_def)
qed

lemma natOfString_snoc: "natOfString (str @ [c]) = 10 * natOfString str + digitVal c"
  by (simp add: natOfString_def)

lemma natOfString_stringOfNat: "natOfString (stringOfNat n) = n"
proof (induction n rule: stringOfNat.induct)
  case (1 n)
  show ?case
  proof (cases "n < 10")
    case True
    then have "stringOfNat n = [digitChar n]"
      by (subst stringOfNat.simps) simp
    with True show ?thesis
      by (simp add: natOfString_def digitVal_digitChar)
  next
    case False
    then have unfold: "stringOfNat n = stringOfNat (n div 10) @ [digitChar (n mod 10)]"
      by (subst stringOfNat.simps) simp
    have "natOfString (stringOfNat n) = 10 * natOfString (stringOfNat (n div 10)) + digitVal (digitChar (n mod 10))"
      by (simp only: unfold natOfString_snoc)
    also have "\<dots> = 10 * (n div 10) + n mod 10"
      using "1.IH" [OF False] by (simp add: digitVal_digitChar)
    also have "\<dots> = n" by simp
    finally show ?thesis .
  qed
qed

lemma no_dash_stringOfNat: "CHR ''-'' \<notin> set (stringOfNat n)"
proof (induction n rule: stringOfNat.induct)
  case (1 n)
  show ?case
  proof (cases "n < 10")
    case True
    then have "stringOfNat n = [digitChar n]"
      by (subst stringOfNat.simps) simp
    with True show ?thesis
      using digitChar_not_dash [of n] by auto
  next
    case False
    then have unfold: "stringOfNat n = stringOfNat (n div 10) @ [digitChar (n mod 10)]"
      by (subst stringOfNat.simps) simp
    have "digitChar (n mod 10) \<noteq> CHR ''-''"
      by (rule digitChar_not_dash) simp
    with "1.IH" [OF False] show ?thesis
      by (simp only: unfold set_append) auto
  qed
qed

lemma natOfString_zeros: "natOfString (replicate k (CHR ''0'') @ str) = natOfString str"
proof -
  have "foldl (\<lambda>acc c. 10 * acc + digitVal c) 0 (replicate k (CHR ''0'')) = 0"
    by (induction k) (simp_all add: digitVal_def)
  then show ?thesis
    by (simp add: natOfString_def)
qed

lemma natOfString_padStart: "natOfString (padStart w (CHR ''0'') (stringOfNat n)) = n"
  by (simp add: padStart_def natOfString_zeros natOfString_stringOfNat)

lemma no_dash_padStart: "CHR ''-'' \<notin> set (padStart w (CHR ''0'') (stringOfNat n))"
  using no_dash_stringOfNat [of n] by (auto simp: padStart_def)

lemma sequencePart_after_dash:
  assumes "CHR ''-'' \<notin> set ys"
  shows "sequencePart (xs @ CHR ''-'' # ys) = ys"
proof -
  have "takeWhile (\<lambda>c. c \<noteq> CHR ''-'') (rev ys @ CHR ''-'' # rev xs) = rev ys"
    using assms by (auto simp: takeWhile_tail)
  then show ?thesis
    by (simp add: sequencePart_def)
qed

text \<open>
  The format: \<open>INV-\<close>, the year, the month on at least two digits, \<open>-\<close>, and the number
  of sales in the store plus one on at least four digits.
\<close>

lemma generateInvoiceNumber_shape:
  "generateInvoiceNumber now s
   = (''INV-'' @ stringOfNat (fullYear now) @ padStart 2 (CHR ''0'') (stringOfNat (monthIndex now + 1)))
     @ CHR ''-'' # padStart 4 (CHR ''0'') (stringOfNat (length (sales s) + 1))"
  by (simp add: generateInvoiceNumber_def Let_def)

lemma invoiceSequence_generateInvoiceNumber:
  "invoiceSequence (generateInvoiceNumber now s) = length (sales s) + 1"
  unfolding invoiceSequence_def generateInvoiceNumber_shape
  by (simp only: sequencePart_after_dash [OF no_dash_padStart] natOfString_padStart)

lemma length_sales_addSale: "length (sales (snd (addSale draft rid now s))) = length (sales s) + 1"
proof -
  have frame: "length (sales (foldl (\<lambda>st item. decrementStock snapshot item st) st0 xs)) = length (sales st0)"
    for snapshot st0 xs
    by (induction xs arbitrary: st0) (simp_all add: decrementStock_frame)
  show ?thesis
    by (simp add: addSale_def Let_def frame)
qed

lemma invoiceNumber_addSale:
  "invoiceNumber (fst (addSale draft rid now s)) = generateInvoiceNumber now s"
  by (simp add: addSale_def Let_def saleDraft.defs sale.defs)

lemma length_sales_cancelSale: "length (sales (cancelSale sid s)) = length (sales s)"
  by (simp add: cancelSale_def)

lemma runSaleOps_sequences:
  "map invoiceSequence (fst (runSaleOps ops s))
   = [length (sales s) + 1 ..< length (sales s) + 1 + length (fst (runSaleOps ops s))]"
proof (induction ops s rule: runSaleOps.induct)
  case (1 s)
  show ?case by simp
next
  case (2 draft rid now ops s)
  obtain newSale s1 where add: "addSale draft rid now s = (newSale, s1)"
    by (cases "addSale draft rid now s")
  obtain numbers s2 where rest: "runSaleOps ops s1 = (numbers, s2)"
    by (cases "runSaleOps ops s1")
  have len: "length (sales s1) = length (sales s) + 1"
    using length_sales_addSale [of draft rid now s] by (simp add: add)
  have head: "invoiceSequence (invoiceNumber newSale) = length (sales s) + 1"
    using invoiceNumber_addSale [of draft rid now s]
    by (simp add: add invoiceSequence_generateInvoiceNumber)
  have "map invoiceSequence numbers = [length (sales s1) + 1 ..< length (sales s1) + 1 + length numbers]"
    using "2.IH" [OF add [symmetric] refl] by (simp add: rest)
  then have tail: "map invoiceSequence numbers = [length (sales s) + 2 ..< length (sales s) + 2 + length numbers]"
    by (simp add: len)
  have "map invoiceSequence (fst (runSaleOps (AddSale draft rid now # ops) s))
      = (length (sales s) + 1) # map invoiceSequence numbers"
    by (simp add: add rest head)
  also have "\<dots> = (length (sales s) + 1) # [Suc (length (sales s) + 1) ..< length (sales s) + 1 + (length numbers + 1)]"
    by (simp only: tail) simp
  also have "\<dots> = [length (sales s) + 1 ..< length (sales s) + 1 + (length numbers + 1)]"
    by (rule upt_conv_Cons [symmetric]) simp
  also have "length numbers + 1 = length (fst (runSaleOps (AddSale draft rid now # ops) s))"
    by (simp add: add rest)
  finally show ?case .
next
  case (3 sid ops s)
  then show ?case
    by (simp add: length_sales_cancelSale)
qed

text \<open>
  Claim C8. For every sequence of sales recorded one after the other (cancellations may
  come in between, and each sale has its own date), the sequence components of the
  generated invoice numbers \<open>INV-{year}{month}-{sequence}\<close> are strictly increasing: they
  are the consecutive numbers that start one above the number of sales already in the
  store, cancelled ones included, whatever the months of the dates.
\<close>

theorem invoice_sequence_strictly_increasing:
  "sorted_wrt (<) (map invoiceSequence (fst (runSaleOps ops s)))
   \<and> map invoiceSequence (fst (runSaleOps ops s))
       = [length (sales s) + 1 ..< length (sales s) + 1 + length (fst (runSaleOps ops s))]"
proof -
  let ?n = "length (sales s)"
  let ?numbers = "fst (runSaleOps ops s)"
  have consecutive: "map invoiceSequence ?numbers = [?n + 1 ..< ?n + 1 + length ?numbers]"
    by (rule runSaleOps_sequences)
  have "sorted_wrt (<) [?n + 1 ..< ?n + 1 + length ?numbers]"
    by (rule sorted_wrt_upt)
  then have "sorted_wrt (<) (map invoiceSequence ?numbers)"
    by (simp only: consecutive)
  with consecutive show ?thesis
    by (rule conjI [rotated])
qed

lemma exampleSaleOps_numbers:
  "fst (runSaleOps exampleSaleOps emptyStore) = [''INV-202611-0001'', ''INV-202612-0002'']"
proof -
  have pad: "replicate 3 (CHR ''0'') = ''000''"
    by (simp add: numeral_3_eq_3)
  show ?thesis
    by (simp add: exampleSaleOps_def emptyStore_def addSale_def cancelSale_def Let_def
        saleDraft.defs sale.defs emptyDraft_def generateInvoiceNumber_def padStart_def
        stringOfNat.simps digitChar_def november_def december_def pad)
qed

theorem invoice_sequence_strictly_increasing_witness:
  "fst (runSaleOps exampleSaleOps emptyStore) = [''INV-202611-0001'', ''INV-202612-0002'']
   \<and> map invoiceSequence [''INV-202611-0001'', ''INV-202612-0002''] = [1, 2]"
proof -
  have len: "length (sales emptyStore) = 0"
    by (simp add: emptyStore_def)
  from invoice_sequence_strictly_increasing [of exampleSaleOps emptyStore]
  have "map invoiceSequence [''INV-202611-0001'', ''INV-202612-0002''] = [0 + 1 ..< 0 + 1 + 2]"
    unfolding exampleSaleOps_numbers len by simp
  also have "[0 + 1 ..< 0 + 1 + 2] = [1, 2::nat]"
    by (simp add: upt_rec)
  finally show ?thesis
    by (simp add: exampleSaleOps_numbers)
qed

section \<open>Debts: recording a payment\<close>







text \<open>
  Claim C4, evaluated on the code. \<open>addPayment\<close> makes no check of the amount: a
  payment of \<open>- 50\<close> on a debt of 500 with 200 paid does not fail. It is recorded: paid
  becomes 150, remaining 350, and a payment record is appended.
\<close>

theorem addPayment_accepts_nonpositive:
  "payment_amount paymentNegative \<le> 0
   \<and> map paid (debts debtStore) = [200, 0]
   \<and> debts (addPayment ''d1'' paymentNegative ''p1'' november debtStore) \<noteq> debts debtStore
   \<and> paid (debts (addPayment ''d1'' paymentNegative ''p1'' november debtStore) ! 0) = 150
   \<and> remaining (debts (addPayment ''d1'' paymentNegative ''p1'' november debtStore) ! 0) = 350
   \<and> length (payments (debts (addPayment ''d1'' paymentNegative ''p1'' november debtStore) ! 0)) = 1"
  by (simp add: addPayment_def payDebt_def debtStore_def halfPaidDebt_def zeroDebt_def
      paymentNegative_def Let_def)

text \<open>
  The check that \<open>addPayment\<close> lacks is written in the debts page: \<open>handlePayment\<close>
  refuses an empty amount field and every amount \<open>\<le> 0\<close>. The page records nothing,
  though: whatever the amount, the store after \<open>handlePayment\<close> is the store before.
\<close>

lemma handlePayment_checks_amount:
  "handlePayment None s = (Failed InvalidAmount, s)"
  "a \<le> 0 \<Longrightarrow> handlePayment (Some a) s = (Failed InvalidAmount, s)"
  "snd (handlePayment x s) = s"
  by (simp_all add: handlePayment_def split: option.split)

section \<open>Stock on hand: the sale does not check it\<close>

text \<open>
  Claim C1, evaluated on the code. The cart holds two units of A and one of B; five of A
  and none of B are on hand, so taking the line of B out of stock gives \<open>- 1\<close>. The
  sale is completed all the same: the outcome is \<open>Done\<close>, a sale is recorded, and both
  quantities are decremented, to 3 and to \<open>- 1\<close>.
\<close>

theorem completeSale_oversells:
  "cart shortStore = [lineA2, lineB]
   \<and> map quantity (products shortStore) = [5, 0]
   \<and> find (\<lambda>p. product_id p = productId lineB) (products shortStore) = Some (productB\<lparr>quantity := 0\<rparr>)
   \<and> quantity (productB\<lparr>quantity := 0\<rparr>) - item_quantity lineB < 0
   \<and> fst (completeSale Cash 30 None ''u1'' ''s1'' november shortStore) = Done
   \<and> length (sales shortStore) = 0
   \<and> length (sales (snd (completeSale Cash 30 None ''u1'' ''s1'' november shortStore))) = 1
   \<and> map quantity (products (snd (completeSale Cash 30 None ''u1'' ''s1'' november shortStore))) = [3, - 1]"
  by (simp add: completeSale_def addSale_def decrementStock_def updateProduct_def clearCart_def
      pos_total_def pos_subtotal_def pos_vatAmount_def pos_change_def getCartTotal_def
      shortStore_def productA_def productB_def lineA2_def lineB_def Let_def)

text \<open>
  Claim C2, evaluated on the code. All quantities are non-negative at the start. The
  stock adjustment is accepted (1 \<open>-\<close> 1 = 0 is not negative) and the sale that follows,
  of the unit put in the cart before the adjustment, is completed: product A ends with
  \<open>- 1\<close> on hand.
\<close>

theorem stock_negative_after_adjust_and_commit:
  "list_all (\<lambda>p. quantity p \<ge> 0) (products oneLeftStore)
   \<and> fst (addProductToCart (productA\<lparr>quantity := 1\<rparr>) ''r1'' oneLeftStore) = Done
   \<and> map quantity (products oneInCart) = [1]
   \<and> map item_quantity (cart oneInCart) = [1]
   \<and> fst (handleAdjustment ''A'' Out (Some 1) ''inventory'' ''u1'' ''m1'' oneInCart) = Done
   \<and> map quantity (products adjustedOut) = [0]
   \<and> fst (completeSale Cash 12 None ''u1'' ''s1'' november adjustedOut) = Done
   \<and> map quantity (products committed) = [- 1]"
  by (simp add: committed_def adjustedOut_def oneInCart_def oneLeftStore_def productA_def
      addProductToCart_def newCartItem_def addToCart_def handleAdjustment_def addMovement_def
      completeSale_def addSale_def decrementStock_def updateProduct_def clearCart_def
      pos_total_def pos_subtotal_def pos_vatAmount_def pos_change_def getCartTotal_def Let_def)

text \<open>
  What the stock page does that the sale does not: an adjustment that would leave a
  negative quantity is refused, so adjustments alone keep every quantity non-negative.
\<close>

lemma handleAdjustment_keeps_nonnegative:
  assumes "\<forall>p\<in>set (products s). quantity p \<ge> 0"
  shows "\<forall>p\<in>set (products (snd (handleAdjustment pid ty qty why user rid s))). quantity p \<ge> 0"
proof (cases "fst (handleAdjustment pid ty qty why user rid s) = Done")
  case False
  then have "snd (handleAdjustment pid ty qty why user rid s) = s"
    by (auto simp: handleAdjustment_def Let_def split: option.splits if_splits)
  with assms show ?thesis by simp
next
  case True
  then obtain n product where q: "qty = Some n"
    and f: "find (\<lambda>p. product_id p = pid) (products s) = Some product"
    by (auto simp: handleAdjustment_def Let_def split: option.splits if_splits)
  define newQuantity where "newQuantity = (if ty = In then quantity product + n else quantity product - n)"
  from True q f have nonneg: "newQuantity \<ge> 0"
    by (auto simp: handleAdjustment_def Let_def newQuantity_def split: if_splits)
  from True q f have "products (snd (handleAdjustment pid ty qty why user rid s))
      = products (updateProduct (product_id product) newQuantity s)"
    by (auto simp: handleAdjustment_def Let_def newQuantity_def addMovement_def split: if_splits)
  with assms nonneg show ?thesis
    by (auto simp: updateProduct_def)
qed

theorem handleAdjustment_keeps_nonnegative_witness:
  "list_all (\<lambda>p. quantity p \<ge> 0) (products saleStore)
   \<and> handleAdjustment ''A'' Out (Some 3) ''inventory'' ''u1'' ''m1'' saleStore
       = (Failed InsufficientStock, saleStore)
   \<and> list_all (\<lambda>p. quantity p \<ge> 0)
        (products (snd (handleAdjustment ''A'' Out (Some 2) ''inventory'' ''u1'' ''m1'' saleStore)))"
proof -
  have h: "\<forall>p\<in>set (products saleStore). quantity p \<ge> 0"
    by (simp add: saleStore_def productA_def productB_def)
  have "handleAdjustment ''A'' Out (Some 3) ''inventory'' ''u1'' ''m1'' saleStore
       = (Failed InsufficientStock, saleStore)"
    by (simp add: handleAdjustment_def saleStore_def productA_def productB_def)
  with handleAdjustment_keeps_nonnegative [OF h, of "''A''" Out "Some 2" "''inventory''" "''u1''" "''m1''"] h
  show ?thesis
    by (simp add: list_all_iff)
qed

section \<open>Low stock and out of stock\<close>

text \<open>
  Claim C9, evaluated on the code. Product A is sold out (quantity 0), B is low (4 of a
  minimum of 5), C is well stocked. The store's \<open>getLowStockProducts\<close> returns the
  sold-out product A with B; the stock page's \<open>lowStockProducts\<close> returns B alone and
  its \<open>outOfStockProducts\<close> returns A.
\<close>

theorem getLowStockProducts_includes_sold_out:
  "map quantity (products stockStore) = [0, 4, 50]
   \<and> getLowStockProducts stockStore = [productA\<lparr>quantity := 0\<rparr>, productB]
   \<and> lowStockProducts stockStore = [productB]
   \<and> outOfStockProducts stockStore = [productA\<lparr>quantity := 0\<rparr>]"
  by (simp add: getLowStockProducts_def lowStockProducts_def outOfStockProducts_def
      stockStore_def productA_def productB_def productC_def)

text \<open>
  The stock page's two queries are the ones the claim describes: they return exactly the
  products with \<open>0 < quantity \<le> minQuantity\<close>, and with \<open>quantity = 0\<close>, in the order of
  the product list, and no product is in both.
\<close>

theorem stock_page_queries:
  "set (lowStockProducts s) = {p \<in> set (products s). 0 < quantity p \<and> quantity p \<le> minQuantity p}
   \<and> set (outOfStockProducts s) = {p \<in> set (products s). quantity p = 0}
   \<and> subseq (lowStockProducts s) (products s)
   \<and> subseq (outOfStockProducts s) (products s)
   \<and> set (lowStockProducts s) \<inter> set (outOfStockProducts s) = {}"
  by (auto simp: lowStockProducts_def outOfStockProducts_def)

theorem stock_page_queries_witness:
  "set (lowStockProducts stockStore) = {productB}
   \<and> set (outOfStockProducts stockStore) = {productA\<lparr>quantity := 0\<rparr>}"
  using stock_page_queries [of stockStore]
  by (simp add: lowStockProducts_def outOfStockProducts_def
      stockStore_def productA_def productB_def productC_def)

end
